theory Spec2Isabelle
  imports Main
begin

section \<open>The relational store\<close>

text \<open>
  The database-access layer of \<^verbatim>\<open>src/database/queries.js\<close> sends parameterised SQL
  to a PostgreSQL store through pg-promise. The tables it touches in the slot-accounting
  operations are \<^verbatim>\<open>committee\<close>, \<^verbatim>\<open>committee_slots\<close> and \<^verbatim>\<open>senate_division\<close>. A table is
  the list of its rows; a nullable integer column holds \<open>None\<close> for SQL \<open>NULL\<close>.
  The integer columns have PostgreSQL's \<^verbatim>\<open>integer\<close> type: an addition or a subtraction
  whose result leaves the type fails with 22003. The arguments of the operations are
  taken to be values of the column types; what the store does with a literal outside
  the \<^verbatim>\<open>integer\<close> type is not modelled.
\<close>

record committee_row =
  committee_id :: int
  c_name :: string
  c_description :: string
  total_slots :: "int option"

record committee_slots_row =
  cs_committee_id :: int
  senate_division_short_name :: string
  slot_requirements :: int

record senate_division_row =
  sd_short_name :: string
  sd_name :: string

text \<open>
  The store: its three tables, and one fact of the table declarations, which are not
  among the sources: whether \<^verbatim>\<open>committee.total_slots\<close> is declared \<^verbatim>\<open>NOT NULL\<close>. It
  is a parameter of the model, and no operation changes it.
\<close>

record db =
  total_slots_not_null :: bool
  committee :: "committee_row list"
  committee_slots :: "committee_slots_row list"
  senate_division :: "senate_division_row list"

text \<open>PostgreSQL error classes: SQLSTATE 23502, 23503, 23505, 22003 and 25P02.\<close>

datatype pg_error =
  not_null_violation
  | foreign_key_violation
  | unique_violation
  | numeric_value_out_of_range
  | in_failed_sql_transaction

text \<open>A result row is an object from column names to values; a statement's result
  carries the returned rows and the number of rows it affected.\<close>

type_synonym row = "(string \<times> int option) list"

record pg_result =
  rows :: "row list"
  rowCount :: nat

type_synonym statement = "db \<Rightarrow> (pg_error + pg_result) \<times> db"

subsection \<open>The SQL statements of the slot-accounting operations\<close>

definition in_slot :: "int \<Rightarrow> string \<Rightarrow> committee_slots_row \<Rightarrow> bool" where
  \<comment> \<open>\<^verbatim>\<open>WHERE committee_id = $1 AND senate_division_short_name = $2\<close>\<close>
  "in_slot committeeId senateDivision r =
     (cs_committee_id r = committeeId \<and> senate_division_short_name r = senateDivision)"

definition pg_integer :: "int \<Rightarrow> bool" where
  \<comment> \<open>Modelled from the spec: the column types (the migrations) are not among the sources.
      The spec calls \<^verbatim>\<open>slot_requirements\<close> and \<^verbatim>\<open>total_slots\<close> integers; PostgreSQL's
      \<^verbatim>\<open>integer\<close> has four bytes.\<close>
  "pg_integer x = (- 2147483648 \<le> x \<and> x \<le> 2147483647)"

definition sql_plus :: "int option \<Rightarrow> int option \<Rightarrow> pg_error + int option" where
  \<comment> \<open>SQL \<^verbatim>\<open>+\<close> on \<^verbatim>\<open>integer\<close>: \<^verbatim>\<open>NULL\<close> when an operand is \<^verbatim>\<open>NULL\<close>, 22003 when the sum
      leaves the type\<close>
  "sql_plus a b =
     (case a of
        None \<Rightarrow> Inr None
      | Some x \<Rightarrow>
          (case b of
             None \<Rightarrow> Inr None
           | Some y \<Rightarrow>
               if pg_integer (x + y) then Inr (Some (x + y))
               else Inl numeric_value_out_of_range))"

definition sql_minus :: "int \<Rightarrow> int \<Rightarrow> pg_error + int" where
  \<comment> \<open>SQL \<^verbatim>\<open>-\<close> on \<^verbatim>\<open>integer\<close>: 22003 when the difference leaves the type\<close>
  "sql_minus x y =
     (if pg_integer (x - y) then Inr (x - y) else Inl numeric_value_out_of_range)"

definition committee_slots_violation :: "int \<Rightarrow> string \<Rightarrow> db \<Rightarrow> pg_error option" where
  \<comment> \<open>Modelled from the spec: the table declarations (the migrations) are not among the
      sources. The spec gives \<^verbatim>\<open>committee_slots(committee_id FK, senate_division_short_name FK,
      slot_requirements, UNIQUE(committee_id, senate_division_short_name))\<close>: a new row
      violates the unique pair when the pair has a row, and a foreign key when the
      committee or the division does not exist. The unique index is checked as the row
      goes in, the foreign keys at the end of the statement.\<close>
  "committee_slots_violation committeeId senateDivision s =
     (if filter (in_slot committeeId senateDivision) (committee_slots s) \<noteq> []
      then Some unique_violation
      else if committeeId \<notin> set (map committee_id (committee s))
      then Some foreign_key_violation
      else if senateDivision \<notin> set (map sd_short_name (senate_division s))
      then Some foreign_key_violation
      else None)"

definition insert_committee_slots :: "int \<Rightarrow> string \<Rightarrow> int \<Rightarrow> statement" where
  \<comment> \<open>\<^verbatim>\<open>INSERT INTO committee_slots(committee_id, senate_division_short_name, slot_requirements)
      VALUES($1, $2, $3) RETURNING committee_id as "committeeId"\<close>\<close>
  "insert_committee_slots committeeId senateDivision slotRequirements s =
     (case committee_slots_violation committeeId senateDivision s of
        Some e \<Rightarrow> (Inl e, s)
      | None \<Rightarrow>
          (Inr \<lparr>rows = [[(''committeeId'', Some committeeId)]], rowCount = 1\<rparr>,
           s\<lparr>committee_slots := committee_slots s @
                [\<lparr>cs_committee_id = committeeId,
                  senate_division_short_name = senateDivision,
                  slot_requirements = slotRequirements\<rparr>]\<rparr>))"

definition add_total :: "int \<Rightarrow> int option \<Rightarrow> committee_row \<Rightarrow> committee_row" where
  \<comment> \<open>the row as the \<^verbatim>\<open>UPDATE\<close> below rewrites it (a row whose sum overflows makes the
      whole statement fail)\<close>
  "add_total committeeId d c =
     (if committee_id c = committeeId
      then (case sql_plus (total_slots c) d of
              Inl e \<Rightarrow> c
            | Inr v \<Rightarrow> c\<lparr>total_slots := v\<rparr>)
      else c)"

definition update_total_slots :: "int \<Rightarrow> int option \<Rightarrow> statement" where
  \<comment> \<open>\<^verbatim>\<open>UPDATE committee SET total_slots = (total_slots + $2) WHERE committee_id = $1\<close>\<close>
  "update_total_slots committeeId d s =
     (let hit = filter (\<lambda>c. committee_id c = committeeId) (committee s)
      in if filter (\<lambda>c. isl (sql_plus (total_slots c) d)) hit \<noteq> []
         then (Inl numeric_value_out_of_range, s)
         else if total_slots_not_null s
                 \<and> filter (\<lambda>c. sql_plus (total_slots c) d = Inr None) hit \<noteq> []
         then (Inl not_null_violation, s)
         else (Inr \<lparr>rows = [], rowCount = length hit\<rparr>,
               s\<lparr>committee := map (add_total committeeId d) (committee s)\<rparr>))"

definition set_requirements :: "int \<Rightarrow> int \<Rightarrow> string \<Rightarrow> committee_slots_row \<Rightarrow> committee_slots_row" where
  "set_requirements slotRequirements committeeId senateDivision r =
     (if in_slot committeeId senateDivision r then r\<lparr>slot_requirements := slotRequirements\<rparr> else r)"

definition update_slot_requirements :: "int \<Rightarrow> int \<Rightarrow> string \<Rightarrow> statement" where
  \<comment> \<open>\<^verbatim>\<open>UPDATE committee_slots SET slot_requirements = $1
      WHERE committee_id = $2 and senate_division_short_name = $3\<close>\<close>
  "update_slot_requirements slotRequirements committeeId senateDivision s =
     (Inr \<lparr>rows = [],
           rowCount = length (filter (in_slot committeeId senateDivision) (committee_slots s))\<rparr>,
      s\<lparr>committee_slots :=
          map (set_requirements slotRequirements committeeId senateDivision) (committee_slots s)\<rparr>)"

definition delete_committee_slots :: "int \<Rightarrow> string \<Rightarrow> statement" where
  \<comment> \<open>\<^verbatim>\<open>DELETE FROM committee_slots WHERE committee_id = $1 AND senate_division_short_name = $2\<close>\<close>
  "delete_committee_slots committee_id' senate_division_short_name' s =
     (Inr \<lparr>rows = [],
           rowCount = length (filter (in_slot committee_id' senate_division_short_name')
                                (committee_slots s))\<rparr>,
      s\<lparr>committee_slots :=
          filter (\<lambda>r. \<not> in_slot committee_id' senate_division_short_name' r) (committee_slots s)\<rparr>)"

definition select_difference :: "int \<Rightarrow> int \<Rightarrow> string \<Rightarrow> statement" where
  \<comment> \<open>\<^verbatim>\<open>SELECT $2-slot_requirements AS difference FROM committee_slots
      where committee_id=$1 AND senate_division_short_name=$3\<close>\<close>
  "select_difference committeeId slotRequirements senateDivision s =
     (let hit = filter (in_slot committeeId senateDivision) (committee_slots s)
      in if filter (\<lambda>r. isl (sql_minus slotRequirements (slot_requirements r))) hit \<noteq> []
         then (Inl numeric_value_out_of_range, s)
         else (Inr \<lparr>rows = map (\<lambda>r. [(''difference'',
                                       Some (slotRequirements - slot_requirements r))]) hit,
                    rowCount = length hit\<rparr>, s))"

definition committee_name_violation :: "string \<Rightarrow> int \<Rightarrow> db \<Rightarrow> bool" where
  \<comment> \<open>Modelled from the spec: the table declarations are not among the sources. The spec
      gives \<^verbatim>\<open>committee(committee_id PK, name UNIQUE, description, total_slots)\<close>: renaming
      the rows of an id violates the unique name when more than one row is renamed or a
      row of another id has the name.\<close>
  "committee_name_violation name' id' s =
     (let hit = filter (\<lambda>c. committee_id c = id') (committee s)
      in hit \<noteq> [] \<and> (1 < length hit \<or>
           filter (\<lambda>c. committee_id c \<noteq> id' \<and> c_name c = name') (committee s) \<noteq> []))"

definition update_committee :: "string \<Rightarrow> string \<Rightarrow> int \<Rightarrow> int \<Rightarrow> statement" where
  \<comment> \<open>\<^verbatim>\<open>UPDATE committee SET name = $1, description = $2, total_slots = $3 WHERE committee_id = $4\<close>\<close>
  "update_committee name' description slots id' s =
     (if committee_name_violation name' id' s
      then (Inl unique_violation, s)
      else (Inr \<lparr>rows = [],
                 rowCount = length (filter (\<lambda>c. committee_id c = id') (committee s))\<rparr>,
            s\<lparr>committee := map (\<lambda>c. if committee_id c = id'
                 then c\<lparr>c_name := name', c_description := description, total_slots := Some slots\<rparr>
                 else c) (committee s)\<rparr>))"

section \<open>The pg-promise query methods\<close>

text \<open>
  The methods of the pg-promise library that the operations call, as the library
  documents them. A query method settles with a value or rejects with an error. \<^verbatim>\<open>one\<close>
  expects exactly one row and rejects with a \<^verbatim>\<open>QueryResultError\<close> otherwise; \<^verbatim>\<open>result\<close>
  resolves with the result object, whose \<^verbatim>\<open>rowCount\<close> the route handlers read. A lost
  connection or a timeout of the store is not modelled: a statement fails only through a
  constraint.
\<close>

datatype query_result_error_code = noData | multiple

datatype query_error = PgError pg_error | QueryResultError query_result_error_code

datatype resolved = Row row | Result pg_result

type_synonym task = "db \<Rightarrow> (query_error + resolved) \<times> db"

definition one :: "statement \<Rightarrow> task" where
  "one q s =
     (case q s of
        (Inl e, s') \<Rightarrow> (Inl (PgError e), s')
      | (Inr r, s') \<Rightarrow>
          (case rows r of
             [] \<Rightarrow> (Inl (QueryResultError noData), s')
           | [x] \<Rightarrow> (Inr (Row x), s')
           | _ \<Rightarrow> (Inl (QueryResultError multiple), s')))"

definition result :: "statement \<Rightarrow> task" where
  "result q s =
     (case q s of
        (Inl e, s') \<Rightarrow> (Inl (PgError e), s')
      | (Inr r, s') \<Rightarrow> (Inr (Result r), s'))"

text \<open>
  What an exported operation's promise settles with: a single query's value or error, or
  those of a batch. A \<^verbatim>\<open>BatchError\<close> carries the outcome of every query of the batch.
\<close>

datatype error = Query query_error | BatchError "(query_error + resolved) list"

datatype answer = Single resolved | Batch "resolved list"

type_synonym operation = "db \<Rightarrow> (error + answer) \<times> db"

definition single :: "task \<Rightarrow> operation" where
  "single q s = (case q s of (Inl e, s') \<Rightarrow> (Inl (Query e), s') | (Inr v, s') \<Rightarrow> (Inr (Single v), s'))"

fun aborts :: "query_error + resolved \<Rightarrow> bool" where
  "aborts (Inl (PgError e)) = True"
| "aborts (Inl (QueryResultError c)) = False"
| "aborts (Inr v) = False"

text \<open>
  The queries of a batch are all issued on the transaction's connection and run in
  order. Once a statement has failed in the store the transaction is aborted, and every
  later statement is refused (25P02) until the rollback.
\<close>

fun settle :: "task list \<Rightarrow> bool \<Rightarrow> db \<Rightarrow> (query_error + resolved) list \<times> db" where
  "settle [] failed s = ([], s)"
| "settle (q # qs) failed s =
     (if failed
      then (case settle qs True s of (rs, s') \<Rightarrow> (Inl (PgError in_failed_sql_transaction) # rs, s'))
      else (case q s of (r, s1) \<Rightarrow>
              (case settle qs (aborts r) s1 of (rs, s') \<Rightarrow> (r # rs, s'))))"

fun all_resolved :: "(query_error + resolved) list \<Rightarrow> resolved list option" where
  "all_resolved [] = Some []"
| "all_resolved (Inl e # rs) = None"
| "all_resolved (Inr v # rs) = (case all_resolved rs of None \<Rightarrow> None | Some vs \<Rightarrow> Some (v # vs))"

definition batch :: "task list \<Rightarrow> operation" where
  \<comment> \<open>\<^verbatim>\<open>t.batch([...])\<close>: resolves with every value when all queries resolved, rejects with a
      \<^verbatim>\<open>BatchError\<close> otherwise\<close>
  "batch qs s =
     (case settle qs False s of (rs, s') \<Rightarrow>
        (case all_resolved rs of
           Some vs \<Rightarrow> (Inr (Batch vs), s')
         | None \<Rightarrow> (Inl (BatchError rs), s')))"

definition tx :: "operation \<Rightarrow> operation" where
  \<comment> \<open>\<^verbatim>\<open>connection.tx(cb)\<close>: \<^verbatim>\<open>BEGIN\<close>, the callback, then \<^verbatim>\<open>COMMIT\<close> when it resolved and
      \<^verbatim>\<open>ROLLBACK\<close> when it rejected\<close>
  "tx cb s = (case cb s of (Inr v, s') \<Rightarrow> (Inr v, s') | (Inl e, s') \<Rightarrow> (Inl e, s))"


section \<open>The exported operations\<close>

definition addCommitteeSlots :: "int \<Rightarrow> string \<Rightarrow> int \<Rightarrow> operation" where
  "addCommitteeSlots committeeId senateDivision slotRequirements =
     tx (batch
       [one (insert_committee_slots committeeId senateDivision slotRequirements),
        result (update_total_slots committeeId (Some slotRequirements))])"

definition deleteSlotRequirement :: "int \<Rightarrow> string \<Rightarrow> operation" where
  "deleteSlotRequirement committee_id' senate_division_short_name' =
     single (result (delete_committee_slots committee_id' senate_division_short_name'))"

text \<open>
  \<^verbatim>\<open>updateCommitteeSlots\<close> first reads the difference outside the transaction. Its
  \<^verbatim>\<open>.catch(err => { return err; })\<close> turns a rejection into the value of
  \<^verbatim>\<open>slotDifference\<close>, so \<^verbatim>\<open>slotDifference\<close> is a row or an error object, and
  \<^verbatim>\<open>slotDifference.difference\<close> is \<^verbatim>\<open>undefined\<close> on an error object. pg-promise writes
  both \<^verbatim>\<open>null\<close> and \<^verbatim>\<open>undefined\<close> into the SQL text as \<^verbatim>\<open>null\<close>.
\<close>

datatype js_object = ErrorObject query_error | RowObject row | ResultObject pg_result

fun caught :: "query_error + resolved \<Rightarrow> js_object" where
  \<comment> \<open>\<^verbatim>\<open>await promise.catch(err => { return err; })\<close>\<close>
  "caught (Inl e) = ErrorObject e"
| "caught (Inr (Row r)) = RowObject r"
| "caught (Inr (Result r)) = ResultObject r"

datatype property = Undefined | Property "int option"

fun difference :: "js_object \<Rightarrow> property" where
  \<comment> \<open>\<^verbatim>\<open>slotDifference.difference\<close>\<close>
  "difference (ErrorObject e) = Undefined"
| "difference (RowObject r) = (case map_of r ''difference'' of None \<Rightarrow> Undefined | Some v \<Rightarrow> Property v)"
| "difference (ResultObject r) = Undefined"

fun as_sql :: "property \<Rightarrow> int option" where
  "as_sql Undefined = None"
| "as_sql (Property v) = v"

definition updateCommitteeSlots :: "int \<Rightarrow> string \<Rightarrow> int \<Rightarrow> operation" where
  "updateCommitteeSlots committeeId senateDivision slotRequirements s =
     (case one (select_difference committeeId slotRequirements senateDivision) s of
        (settled, s1) \<Rightarrow>
          (let slotDifference = caught settled
           in tx (batch
                [result (update_slot_requirements slotRequirements committeeId senateDivision),
                 result (update_total_slots committeeId (as_sql (difference slotDifference)))]) s1))"

text \<open>
  \<^verbatim>\<open>updateCommittee\<close> wraps its one statement in a transaction (the statement is sent on
  the root connection; with a single statement the outcome is the same).
\<close>

definition updateCommittee :: "int \<Rightarrow> string \<Rightarrow> string \<Rightarrow> int \<Rightarrow> operation" where
  "updateCommittee id' name' description slots =
     tx (single (result (update_committee name' description slots id')))"

section \<open>Reading the two columns\<close>

definition total_slots_of :: "db \<Rightarrow> int \<Rightarrow> int option list" where
  \<comment> \<open>\<^verbatim>\<open>total_slots\<close> of the committee rows with this id\<close>
  "total_slots_of s committeeId =
     map total_slots (filter (\<lambda>c. committee_id c = committeeId) (committee s))"

definition slot_requirements_of :: "db \<Rightarrow> int \<Rightarrow> string \<Rightarrow> int list" where
  \<comment> \<open>\<^verbatim>\<open>slot_requirements\<close> of the slot rows of this pair\<close>
  "slot_requirements_of s committeeId senateDivision =
     map slot_requirements (filter (in_slot committeeId senateDivision) (committee_slots s))"

definition slot_sum :: "db \<Rightarrow> int \<Rightarrow> int" where
  \<comment> \<open>the sum of \<^verbatim>\<open>slot_requirements\<close> over the slot rows of a committee\<close>
  "slot_sum s committeeId =
     sum_list (map slot_requirements (filter (\<lambda>r. cs_committee_id r = committeeId) (committee_slots s)))"

definition totals_consistent :: "db \<Rightarrow> bool" where
  "totals_consistent s =
     list_all (\<lambda>c. total_slots c = Some (slot_sum s (committee_id c))) (committee s)"

definition unique_pairs :: "db \<Rightarrow> bool" where
  \<comment> \<open>\<^verbatim>\<open>UNIQUE(committee_id, senate_division_short_name)\<close> on \<^verbatim>\<open>committee_slots\<close>\<close>
  "unique_pairs s =
     distinct (map (\<lambda>r. (cs_committee_id r, senate_division_short_name r)) (committee_slots s))"

definition difference_param :: "int \<Rightarrow> string \<Rightarrow> int \<Rightarrow> db \<Rightarrow> int option" where
  \<comment> \<open>\<^verbatim>\<open>slotDifference.difference\<close> as \<^verbatim>\<open>updateCommitteeSlots\<close> writes it into its second
      \<^verbatim>\<open>UPDATE\<close>\<close>
  "difference_param committeeId senateDivision slotRequirements s =
     as_sql (difference (caught
       (fst (one (select_difference committeeId slotRequirements senateDivision) s))))"

section \<open>The statements of every exported operation\<close>

text \<open>
  For the ownership of \<^verbatim>\<open>committee.total_slots\<close>: each function of \<^verbatim>\<open>module.exports\<close>
  with the statements it can send, over all of its branches. A statement is kept as its
  kind, its table and the columns it names.
\<close>

datatype sql =
  SELECT
  | INSERT string "string list"
  | UPDATE string "string list"
  | DELETE string

datatype exported =
  AddCommittee
  | AddCommitteeAssignment
  | AddCommitteeSlots
  | AddDepartmentAssociation
  | AddFaculty
  | AddSurveyChoice
  | AddSurveyData
  | DeleteCommitteeAssignment
  | DeleteSlotRequirement
  | GetAllFaculty
  | GetCommittee
  | GetCommitteeAssignmentByCommittee
  | GetCommitteeAssignmentByFaculty
  | GetCommitteeInfo
  | GetCommitteeSlotsByCommittee
  | GetCommitteeSlotsBySenate
  | GetCommittees
  | GetDepartment
  | GetDepartmentAssociationsByDepartment
  | GetDepartmentAssociationsByFaculty
  | GetDepartments
  | GetFaculty
  | GetFacultyInfo
  | GetSenateDivision
  | GetSenateDivisions
  | GetSenateDivisionStats
  | GetSurveyChoice
  | GetSurveyData
  | UpdateCommittee
  | UpdateCommitteeAssignment
  | UpdateCommitteeSlots
  | UpdateDepartmentAssociations
  | UpdateFaculty
  | UpdateSurveyData

definition faculty_info :: "sql list" where
  \<comment> \<open>Modelled from the spec: the query text \<^verbatim>\<open>faculty.info\<close> is loaded from a file that is
      not among the sources; the spec calls the faculty info query a read-only projection.\<close>
  "faculty_info = [SELECT]"

definition division_stats :: "sql list" where
  \<comment> \<open>Modelled from the spec: the query text \<^verbatim>\<open>reports.divisionStats\<close> is loaded from a file
      that is not among the sources; the spec calls the division stats query a read-only
      projection.\<close>
  "division_stats = [SELECT]"

fun statements :: "exported \<Rightarrow> sql list" where
  "statements AddCommittee = [INSERT ''committee'' [''name'', ''description'', ''total_slots'']]"
| "statements AddCommitteeAssignment =
     [INSERT ''committee_assignment'' [''email'', ''committee_id'', ''start_date'', ''end_date'']]"
| "statements AddCommitteeSlots =
     [INSERT ''committee_slots'' [''committee_id'', ''senate_division_short_name'', ''slot_requirements''],
      UPDATE ''committee'' [''total_slots'']]"
| "statements AddDepartmentAssociation = [INSERT ''department_associations'' [''email'', ''department_id'']]"
| "statements AddFaculty =
     [INSERT ''faculty'' [''full_name'', ''email'', ''job_title'', ''phone_num'', ''senate_division_short_name''],
      INSERT ''department_associations'' [''email'', ''department_id'']]"
| "statements AddSurveyChoice =
     [INSERT ''survey_choice'' [''choice_id'', ''survey_date'', ''email'', ''committee_id'']]"
| "statements AddSurveyData =
     [INSERT ''survey_data'' [''survey_date'', ''email'', ''is_interested'', ''expertise'']]"
| "statements DeleteCommitteeAssignment = [DELETE ''committee_assignment'']"
| "statements DeleteSlotRequirement = [DELETE ''committee_slots'']"
| "statements GetFacultyInfo = faculty_info"
| "statements GetSenateDivisionStats = division_stats"
| "statements UpdateCommittee = [UPDATE ''committee'' [''name'', ''description'', ''total_slots'']]"
| "statements UpdateCommitteeAssignment = [UPDATE ''committee_assignment'' [''start_date'', ''end_date'']]"
| "statements UpdateCommitteeSlots =
     [SELECT,
      UPDATE ''committee_slots'' [''slot_requirements''],
      UPDATE ''committee'' [''total_slots'']]"
| "statements UpdateDepartmentAssociations = [UPDATE ''department_associations'' [''department_id'']]"
| "statements UpdateFaculty =
     [UPDATE ''faculty'' [''full_name'', ''job_title'', ''phone_num'', ''senate_division_short_name''],
      DELETE ''department_associations'',
      INSERT ''department_associations'' [''email'', ''department_id'']]"
| "statements UpdateSurveyData = [UPDATE ''survey_data'' [''is_interested'', ''expertise'']]"
| "statements _ = [SELECT]"

fun writes_column :: "string \<Rightarrow> string \<Rightarrow> sql \<Rightarrow> bool" where
  "writes_column t c SELECT = False"
| "writes_column t c (INSERT t' cs) = (t' = t \<and> c \<in> set cs)"
| "writes_column t c (UPDATE t' cs) = (t' = t \<and> c \<in> set cs)"
| "writes_column t c (DELETE t') = False"

definition writes_total_slots :: "exported \<Rightarrow> bool" where
  "writes_total_slots f = list_ex (writes_column ''committee'' ''total_slots'') (statements f)"

section \<open>A store for the scenarios\<close>

text \<open>
  Committee 1 with twenty slots, all required of the division \<^verbatim>\<open>BQ\<close>, and a committee 2
  with none; the divisions \<^verbatim>\<open>AO\<close> and \<^verbatim>\<open>BQ\<close>.
\<close>

definition scenario :: db where
  "scenario =
     \<lparr>total_slots_not_null = False,
      committee =
        [\<lparr>committee_id = 1, c_name = ''Committee on Committees'', c_description = ''coc'',
          total_slots = Some 20\<rparr>,
         \<lparr>committee_id = 2, c_name = ''Linux Committee'', c_description = ''tux'',
          total_slots = Some 0\<rparr>],
      committee_slots =
        [\<lparr>cs_committee_id = 1, senate_division_short_name = ''BQ'', slot_requirements = 20\<rparr>],
      senate_division =
        [\<lparr>sd_short_name = ''AO'', sd_name = ''All Others''\<rparr>,
         \<lparr>sd_short_name = ''BQ'', sd_name = ''Business''\<rparr>]\<rparr>"

definition scenario_lowered :: db where
  \<comment> \<open>after \<^verbatim>\<open>updateCommittee\<close> has set the total of committee 1 to two\<close>
  "scenario_lowered = snd (updateCommittee 1 ''Committee on Committees'' ''coc'' 2 scenario)"

definition scenario_at_limit :: db where
  \<comment> \<open>committee 1 at the largest total the \<^verbatim>\<open>integer\<close> type holds, its slot row at 0\<close>
  "scenario_at_limit =
     scenario
       \<lparr>committee :=
          [\<lparr>committee_id = 1, c_name = ''Committee on Committees'', c_description = ''coc'',
            total_slots = Some 2147483647\<rparr>,
           \<lparr>committee_id = 2, c_name = ''Linux Committee'', c_description = ''tux'',
            total_slots = Some 0\<rparr>],
        committee_slots :=
          [\<lparr>cs_committee_id = 1, senate_division_short_name = ''BQ'', slot_requirements = 0\<rparr>]\<rparr>"

definition scenario_with_AO :: db where
  \<comment> \<open>after the slot \<^verbatim>\<open>(1, AO, 5)\<close> has been created\<close>
  "scenario_with_AO =
     scenario
       \<lparr>committee :=
          [\<lparr>committee_id = 1, c_name = ''Committee on Committees'', c_description = ''coc'',
            total_slots = Some 25\<rparr>,
           \<lparr>committee_id = 2, c_name = ''Linux Committee'', c_description = ''tux'',
            total_slots = Some 0\<rparr>],
        committee_slots :=
          [\<lparr>cs_committee_id = 1, senate_division_short_name = ''BQ'', slot_requirements = 20\<rparr>,
           \<lparr>cs_committee_id = 1, senate_division_short_name = ''AO'', slot_requirements = 5\<rparr>]\<rparr>"

section \<open>How a two-statement transaction settles\<close>

lemma aborts_all_resolved: "aborts r \<Longrightarrow> all_resolved (r # rs) = None"
  by (cases r) auto

lemma tx_batch2:
  "tx (batch [q1, q2]) s =
     (case q1 s of (r1, s1) \<Rightarrow>
        if aborts r1 then (Inl (BatchError [r1, Inl (PgError in_failed_sql_transaction)]), s)
        else (case q2 s1 of (r2, s2) \<Rightarrow>
                (case all_resolved [r1, r2] of
                   Some vs \<Rightarrow> (Inr (Batch vs), s2)
                 | None \<Rightarrow> (Inl (BatchError [r1, r2]), s))))"
  by (simp add: tx_def batch_def aborts_all_resolved split: prod.splits option.splits)

subsection \<open>Integer arithmetic of the store\<close>

lemma sql_plus_NULL [simp]: "sql_plus a None = Inr None"
  by (simp add: sql_plus_def split: option.splits)

lemma sql_plus_of_NULL [simp]: "sql_plus None b = Inr None"
  by (simp add: sql_plus_def)

lemma sql_plus_Some [simp]:
  "sql_plus (Some x) (Some y) =
     (if pg_integer (x + y) then Inr (Some (x + y)) else Inl numeric_value_out_of_range)"
  by (simp add: sql_plus_def)

lemma sql_plus_Inr_None_iff [simp]: "sql_plus a (Some n) = Inr None \<longleftrightarrow> a = None"
  by (cases a) simp_all

subsection \<open>The pre-read of the update\<close>

lemma one_select_difference_state:
  "snd (one (select_difference committeeId slotRequirements senateDivision) s) = s"
  by (simp add: one_def select_difference_def Let_def del: filter_filter split: list.splits)

lemma difference_param_eq:
  "difference_param committeeId senateDivision slotRequirements s =
     (case slot_requirements_of s committeeId senateDivision of
        [c] \<Rightarrow> if pg_integer (slotRequirements - c) then Some (slotRequirements - c) else None
      | _ \<Rightarrow> None)"
  by (auto simp add: difference_param_def one_def select_difference_def slot_requirements_of_def
      sql_minus_def Let_def simp del: filter_filter split: list.splits)

lemma difference_param_single:
  "slot_requirements_of s committeeId senateDivision = [c] \<Longrightarrow> pg_integer (n - c) \<Longrightarrow>
   difference_param committeeId senateDivision n s = Some (n - c)"
  by (simp add: difference_param_eq)

lemma difference_param_missing:
  "length (slot_requirements_of s committeeId senateDivision) \<noteq> 1 \<Longrightarrow>
   difference_param committeeId senateDivision n s = None"
  by (auto simp add: difference_param_eq split: list.splits)




subsection \<open>The operations, statement by statement\<close>

lemma update_is_transaction:
  "updateCommitteeSlots committeeId senateDivision n s
     = tx (batch [result (update_slot_requirements n committeeId senateDivision),
                  result (update_total_slots committeeId
                    (difference_param committeeId senateDivision n s))]) s"
proof -
  obtain r s1 where o: "one (select_difference committeeId n senateDivision) s = (r, s1)"
    by (cases "one (select_difference committeeId n senateDivision) s")
  from o one_select_difference_state [of committeeId n senateDivision s]
  have s1: "s1 = s"
    by simp
  from o have d: "as_sql (difference (caught r)) = difference_param committeeId senateDivision n s"
    by (simp add: difference_param_def)
  show ?thesis
    unfolding updateCommitteeSlots_def o
    by (simp add: d s1)
qed

lemma updateCommitteeSlots_unfold:
  "updateCommitteeSlots committeeId senateDivision slotRequirements s =
     (let d = difference_param committeeId senateDivision slotRequirements s;
          k = length (slot_requirements_of s committeeId senateDivision);
          hit = filter (\<lambda>r. committee_id r = committeeId) (committee s)
      in if filter (\<lambda>r. isl (sql_plus (total_slots r) d)) hit \<noteq> []
         then (Inl (BatchError [Inr (Result \<lparr>rows = [], rowCount = k\<rparr>),
                                Inl (PgError numeric_value_out_of_range)]), s)
         else if total_slots_not_null s
                 \<and> filter (\<lambda>r. sql_plus (total_slots r) d = Inr None) hit \<noteq> []
         then (Inl (BatchError [Inr (Result \<lparr>rows = [], rowCount = k\<rparr>),
                                Inl (PgError not_null_violation)]), s)
         else (Inr (Batch [Result \<lparr>rows = [], rowCount = k\<rparr>,
                           Result \<lparr>rows = [], rowCount = length hit\<rparr>]),
               s\<lparr>committee_slots :=
                    map (set_requirements slotRequirements committeeId senateDivision) (committee_slots s),
                  committee := map (add_total committeeId d) (committee s)\<rparr>))"
  by (simp add: update_is_transaction tx_batch2 result_def update_slot_requirements_def
      update_total_slots_def slot_requirements_of_def Let_def)

lemma addCommitteeSlots_unfold:
  "addCommitteeSlots committeeId senateDivision slotRequirements s =
     (let hit = filter (\<lambda>r. committee_id r = committeeId) (committee s) in
      if slot_requirements_of s committeeId senateDivision \<noteq> []
      then (Inl (BatchError [Inl (PgError unique_violation),
                             Inl (PgError in_failed_sql_transaction)]), s)
      else if committeeId \<notin> set (map committee_id (committee s))
             \<or> senateDivision \<notin> set (map sd_short_name (senate_division s))
      then (Inl (BatchError [Inl (PgError foreign_key_violation),
                             Inl (PgError in_failed_sql_transaction)]), s)
      else if filter (\<lambda>r. isl (sql_plus (total_slots r) (Some slotRequirements))) hit \<noteq> []
      then (Inl (BatchError [Inr (Row [(''committeeId'', Some committeeId)]),
                             Inl (PgError numeric_value_out_of_range)]), s)
      else if total_slots_not_null s \<and> filter (\<lambda>r. total_slots r = None) hit \<noteq> []
      then (Inl (BatchError [Inr (Row [(''committeeId'', Some committeeId)]),
                             Inl (PgError not_null_violation)]), s)
      else (Inr (Batch [Row [(''committeeId'', Some committeeId)],
                        Result \<lparr>rows = [], rowCount = length hit\<rparr>]),
            s\<lparr>committee_slots := committee_slots s @
                 [\<lparr>cs_committee_id = committeeId,
                   senate_division_short_name = senateDivision,
                   slot_requirements = slotRequirements\<rparr>],
              committee := map (add_total committeeId (Some slotRequirements)) (committee s)\<rparr>))"
  by (simp add: addCommitteeSlots_def tx_batch2 one_def result_def insert_committee_slots_def
      committee_slots_violation_def update_total_slots_def slot_requirements_of_def Let_def)

lemma deleteSlotRequirement_unfold:
  "deleteSlotRequirement committeeId senateDivision s =
     (Inr (Single (Result \<lparr>rows = [],
                           rowCount = length (slot_requirements_of s committeeId senateDivision)\<rparr>)),
      s\<lparr>committee_slots :=
           filter (\<lambda>r. \<not> in_slot committeeId senateDivision r) (committee_slots s)\<rparr>)"
  by (simp add: deleteSlotRequirement_def single_def result_def delete_committee_slots_def
      slot_requirements_of_def)

subsection \<open>Rows and sums under the row-wise rewrites\<close>

lemma in_slot_committee: "in_slot cid sd r \<Longrightarrow> cs_committee_id r = cid"
  by (simp add: in_slot_def)

lemma in_slot_set_requirements [simp]:
  "in_slot a b (set_requirements n cid sd r) = in_slot a b r"
  by (simp add: set_requirements_def in_slot_def)

lemma committee_set_requirements [simp]:
  "cs_committee_id (set_requirements n cid sd r) = cs_committee_id r"
  by (simp add: set_requirements_def)

lemma committee_id_add_total [simp]: "committee_id (add_total cid d c) = committee_id c"
  by (simp add: add_total_def split: sum.splits)

lemma filter_in_slot_set_requirements:
  "filter (in_slot a b) (map (set_requirements n cid sd) xs)
     = map (set_requirements n cid sd) (filter (in_slot a b) xs)"
  by (induction xs) auto

lemma requirements_after_set_same:
  "map slot_requirements (map (set_requirements n cid sd) (filter (in_slot cid sd) xs))
     = map (\<lambda>_. n) (filter (in_slot cid sd) xs)"
  by (induction xs) (auto simp add: set_requirements_def)

lemma filter_committee_add_total:
  "filter (\<lambda>r. committee_id r = k) (map (add_total cid d) cs)
     = map (add_total cid d) (filter (\<lambda>r. committee_id r = k) cs)"
  by (induction cs) auto

lemma totals_after_add_other:
  "k \<noteq> cid \<Longrightarrow>
   map total_slots (filter (\<lambda>r. committee_id r = k) (map (add_total cid d) cs))
     = map total_slots (filter (\<lambda>r. committee_id r = k) cs)"
  by (induction cs) (auto simp add: add_total_def split: sum.splits)

lemma sum_after_set:
  "sum_list (map slot_requirements
      (filter (\<lambda>r. cs_committee_id r = k) (map (set_requirements n cid sd) xs)))
   = sum_list (map slot_requirements (filter (\<lambda>r. cs_committee_id r = k) xs))
     + (if k = cid
        then sum_list (map (\<lambda>r. n - slot_requirements r) (filter (in_slot cid sd) xs))
        else 0)"
  by (induction xs) (auto simp add: set_requirements_def dest: in_slot_committee)

lemma sum_after_delete:
  "sum_list (map slot_requirements
      (filter (\<lambda>r. cs_committee_id r = k) (filter (\<lambda>r. \<not> in_slot cid sd r) xs)))
   = sum_list (map slot_requirements (filter (\<lambda>r. cs_committee_id r = k) xs))
     - (if k = cid then sum_list (map slot_requirements (filter (in_slot cid sd) xs)) else 0)"
  by (induction xs) (auto dest: in_slot_committee)

lemma length_filter_split:
  "length (filter P xs) + length (filter (\<lambda>x. \<not> P x) xs) = length xs"
  by (induction xs) auto

subsection \<open>Updating an existing slot\<close>

lemma single_total:
  assumes "total_slots_of s committeeId = [Some t]"
  obtains r where "filter (\<lambda>r. committee_id r = committeeId) (committee s) = [r]"
    and "total_slots r = Some t"
  using assms by (auto simp add: total_slots_of_def map_eq_Cons_conv)

lemma single_slot:
  assumes "slot_requirements_of s committeeId senateDivision = [c]"
  obtains r where "filter (in_slot committeeId senateDivision) (committee_slots s) = [r]"
    and "slot_requirements r = c"
  using assms by (auto simp add: slot_requirements_of_def map_eq_Cons_conv)

lemma update_existing:
  assumes "slot_requirements_of s committeeId senateDivision = [c]"
      and "total_slots_of s committeeId = [Some t]"
      and "pg_integer (n - c)"
      and "pg_integer (t + (n - c))"
  shows "updateCommitteeSlots committeeId senateDivision n s =
           (Inr (Batch [Result \<lparr>rows = [], rowCount = 1\<rparr>, Result \<lparr>rows = [], rowCount = 1\<rparr>]),
            s\<lparr>committee_slots :=
                 map (set_requirements n committeeId senateDivision) (committee_slots s),
              committee := map (add_total committeeId (Some (n - c))) (committee s)\<rparr>)"
proof -
  from single_total [OF assms(2)] obtain r
    where hit: "filter (\<lambda>r. committee_id r = committeeId) (committee s) = [r]"
      and r: "total_slots r = Some t"
    by blast
  from assms(1,4) hit r show ?thesis
    by (simp add: updateCommitteeSlots_unfold difference_param_single [OF assms(1,3)] Let_def)
qed

lemma update_existing_overflow:
  assumes "slot_requirements_of s committeeId senateDivision = [c]"
      and "total_slots_of s committeeId = [Some t]"
      and "pg_integer (n - c)"
      and "\<not> pg_integer (t + (n - c))"
  shows "updateCommitteeSlots committeeId senateDivision n s =
           (Inl (BatchError [Inr (Result \<lparr>rows = [], rowCount = 1\<rparr>),
                             Inl (PgError numeric_value_out_of_range)]), s)"
proof -
  from single_total [OF assms(2)] obtain r
    where hit: "filter (\<lambda>r. committee_id r = committeeId) (committee s) = [r]"
      and r: "total_slots r = Some t"
    by blast
  from assms(1,4) hit r show ?thesis
    by (simp add: updateCommitteeSlots_unfold difference_param_single [OF assms(1,3)] Let_def)
qed

lemma update_existing_total:
  assumes "slot_requirements_of s committeeId senateDivision = [c]"
      and "total_slots_of s committeeId = [Some t]"
      and "pg_integer (n - c)"
      and "pg_integer (t + (n - c))"
  shows "total_slots_of (snd (updateCommitteeSlots committeeId senateDivision n s)) committeeId
           = [Some (t + (n - c))]"
proof -
  from single_total [OF assms(2)] obtain r
    where hit: "filter (\<lambda>r. committee_id r = committeeId) (committee s) = [r]"
      and r: "total_slots r = Some t"
    by blast
  from hit have "committee_id r = committeeId"
    by (auto simp add: filter_eq_Cons_iff)
  with hit r assms(4) show ?thesis
    by (simp add: update_existing [OF assms] total_slots_of_def filter_committee_add_total
        add_total_def)
qed

lemma update_existing_slot:
  assumes "slot_requirements_of s committeeId senateDivision = [c]"
      and "total_slots_of s committeeId = [Some t]"
      and "pg_integer (n - c)"
      and "pg_integer (t + (n - c))"
  shows "slot_requirements_of (snd (updateCommitteeSlots committeeId senateDivision n s))
           committeeId senateDivision = [n]"
proof -
  from single_slot [OF assms(1)] obtain r
    where "filter (in_slot committeeId senateDivision) (committee_slots s) = [r]"
    by blast
  then have "map (\<lambda>_. n) (filter (in_slot committeeId senateDivision) (committee_slots s)) = [n]"
    by simp
  then show ?thesis
    by (simp add: update_existing [OF assms] slot_requirements_of_def
        filter_in_slot_set_requirements requirements_after_set_same del: map_map)
qed

lemma update_existing_other_total:
  assumes "slot_requirements_of s committeeId senateDivision = [c]"
      and "total_slots_of s committeeId = [Some t]"
      and "pg_integer (n - c)"
      and "k \<noteq> committeeId"
  shows "total_slots_of (snd (updateCommitteeSlots committeeId senateDivision n s)) k
           = total_slots_of s k"
proof (cases "pg_integer (t + (n - c))")
  case True
  with assms(4) show ?thesis
    by (simp add: update_existing [OF assms(1,2,3)] total_slots_of_def totals_after_add_other)
next
  case False
  then show ?thesis
    by (simp add: update_existing_overflow [OF assms(1,2,3)])
qed

lemma updateCommitteeSlots_all_or_nothing:
  "(isl (fst (updateCommitteeSlots committeeId senateDivision n s))
      \<and> snd (updateCommitteeSlots committeeId senateDivision n s) = s)
   \<or> (\<not> isl (fst (updateCommitteeSlots committeeId senateDivision n s))
      \<and> committee_slots (snd (updateCommitteeSlots committeeId senateDivision n s))
          = map (set_requirements n committeeId senateDivision) (committee_slots s)
      \<and> committee (snd (updateCommitteeSlots committeeId senateDivision n s))
          = map (add_total committeeId (difference_param committeeId senateDivision n s)) (committee s))"
  by (simp add: updateCommitteeSlots_unfold Let_def)

lemma update_resolved:
  assumes "\<not> isl (fst (updateCommitteeSlots committeeId senateDivision n s))"
  shows "committee_slots (snd (updateCommitteeSlots committeeId senateDivision n s))
           = map (set_requirements n committeeId senateDivision) (committee_slots s)"
    and "committee (snd (updateCommitteeSlots committeeId senateDivision n s))
           = map (add_total committeeId (difference_param committeeId senateDivision n s)) (committee s)"
    and "filter (\<lambda>r. isl (sql_plus (total_slots r) (difference_param committeeId senateDivision n s)))
           (filter (\<lambda>r. committee_id r = committeeId) (committee s)) = []"
  using assms
  by (auto simp add: updateCommitteeSlots_unfold Let_def split: if_splits)

subsection \<open>The scenario stores\<close>

lemma scenario_lowered_eq:
  "scenario_lowered =
     scenario
       \<lparr>committee :=
          [\<lparr>committee_id = 1, c_name = ''Committee on Committees'', c_description = ''coc'',
            total_slots = Some 2\<rparr>,
           \<lparr>committee_id = 2, c_name = ''Linux Committee'', c_description = ''tux'',
            total_slots = Some 0\<rparr>]\<rparr>"
  by (simp add: scenario_lowered_def updateCommittee_def tx_def single_def result_def
      update_committee_def committee_name_violation_def scenario_def)

subsection \<open>Creating a slot\<close>

lemma add_fresh:
  assumes "total_slots_of s committeeId = [Some t]"
      and "senateDivision \<in> set (map sd_short_name (senate_division s))"
      and "slot_requirements_of s committeeId senateDivision = []"
      and "pg_integer (t + n)"
  shows "addCommitteeSlots committeeId senateDivision n s =
           (Inr (Batch [Row [(''committeeId'', Some committeeId)], Result \<lparr>rows = [], rowCount = 1\<rparr>]),
            s\<lparr>committee_slots := committee_slots s @
                 [\<lparr>cs_committee_id = committeeId,
                   senate_division_short_name = senateDivision,
                   slot_requirements = n\<rparr>],
              committee := map (add_total committeeId (Some n)) (committee s)\<rparr>)"
proof -
  from single_total [OF assms(1)] obtain r
    where hit: "filter (\<lambda>r. committee_id r = committeeId) (committee s) = [r]"
      and r: "total_slots r = Some t"
    by blast
  from hit have "committeeId \<in> set (map committee_id (committee s))"
    by (auto simp add: filter_eq_Cons_iff)
  with assms(2,3,4) hit r show ?thesis
    by (simp add: addCommitteeSlots_unfold Let_def)
qed

lemma add_fresh_overflow:
  assumes "total_slots_of s committeeId = [Some t]"
      and "senateDivision \<in> set (map sd_short_name (senate_division s))"
      and "slot_requirements_of s committeeId senateDivision = []"
      and "\<not> pg_integer (t + n)"
  shows "addCommitteeSlots committeeId senateDivision n s =
           (Inl (BatchError [Inr (Row [(''committeeId'', Some committeeId)]),
                             Inl (PgError numeric_value_out_of_range)]), s)"
proof -
  from single_total [OF assms(1)] obtain r
    where hit: "filter (\<lambda>r. committee_id r = committeeId) (committee s) = [r]"
      and r: "total_slots r = Some t"
    by blast
  from hit have "committeeId \<in> set (map committee_id (committee s))"
    by (auto simp add: filter_eq_Cons_iff)
  with assms(2,3,4) hit r show ?thesis
    by (simp add: addCommitteeSlots_unfold Let_def)
qed

lemma add_fresh_total:
  assumes "total_slots_of s committeeId = [Some t]"
      and "senateDivision \<in> set (map sd_short_name (senate_division s))"
      and "slot_requirements_of s committeeId senateDivision = []"
      and "pg_integer (t + n)"
  shows "total_slots_of (snd (addCommitteeSlots committeeId senateDivision n s)) committeeId
           = [Some (t + n)]"
proof -
  from single_total [OF assms(1)] obtain r
    where hit: "filter (\<lambda>r. committee_id r = committeeId) (committee s) = [r]"
      and r: "total_slots r = Some t"
    by blast
  from hit have "committee_id r = committeeId"
    by (auto simp add: filter_eq_Cons_iff)
  with hit r assms(4) show ?thesis
    by (simp add: add_fresh [OF assms] total_slots_of_def filter_committee_add_total
        add_total_def)
qed

lemma add_fresh_slot:
  assumes "total_slots_of s committeeId = [Some t]"
      and "senateDivision \<in> set (map sd_short_name (senate_division s))"
      and "slot_requirements_of s committeeId senateDivision = []"
      and "pg_integer (t + n)"
  shows "slot_requirements_of (snd (addCommitteeSlots committeeId senateDivision n s))
           committeeId senateDivision = [n]"
  using assms(3)
  by (simp add: add_fresh [OF assms] slot_requirements_of_def in_slot_def)


lemma add_all_or_nothing:
  "(isl (fst (addCommitteeSlots committeeId senateDivision n s))
      \<and> snd (addCommitteeSlots committeeId senateDivision n s) = s)
   \<or> (\<not> isl (fst (addCommitteeSlots committeeId senateDivision n s))
      \<and> committee_slots (snd (addCommitteeSlots committeeId senateDivision n s))
          = committee_slots s @
              [\<lparr>cs_committee_id = committeeId, senate_division_short_name = senateDivision,
                slot_requirements = n\<rparr>]
      \<and> committee (snd (addCommitteeSlots committeeId senateDivision n s))
          = map (add_total committeeId (Some n)) (committee s))"
  by (simp add: addCommitteeSlots_unfold Let_def)

lemma add_resolved:
  assumes "\<not> isl (fst (addCommitteeSlots committeeId senateDivision n s))"
  shows "committee_slots (snd (addCommitteeSlots committeeId senateDivision n s))
           = committee_slots s @
               [\<lparr>cs_committee_id = committeeId, senate_division_short_name = senateDivision,
                 slot_requirements = n\<rparr>]"
    and "committee (snd (addCommitteeSlots committeeId senateDivision n s))
           = map (add_total committeeId (Some n)) (committee s)"
    and "filter (\<lambda>r. isl (sql_plus (total_slots r) (Some n)))
           (filter (\<lambda>r. committee_id r = committeeId) (committee s)) = []"
  using assms
  by (auto simp add: addCommitteeSlots_unfold Let_def split: if_splits)

subsection \<open>The unique pair\<close>

lemma unique_pairs_count:
  "distinct (map (\<lambda>r. (cs_committee_id r, senate_division_short_name r)) xs) \<Longrightarrow>
   length (filter (in_slot cid sd) xs) \<le> 1"
proof (induction xs)
  case Nil
  then show ?case by simp
next
  case (Cons x xs)
  show ?case
  proof (cases "in_slot cid sd x")
    case True
    with Cons.prems have "\<forall>r \<in> set xs. \<not> in_slot cid sd r"
      by (auto simp add: in_slot_def image_iff)
    then have "filter (in_slot cid sd) xs = []"
      by (simp add: filter_empty_conv)
    with True show ?thesis by simp
  next
    case False
    with Cons show ?thesis by simp
  qed
qed

lemma key_set_requirements:
  "map (\<lambda>r. (cs_committee_id r, senate_division_short_name r)) (map (set_requirements n cid sd) xs)
     = map (\<lambda>r. (cs_committee_id r, senate_division_short_name r)) xs"
  by (induction xs) (auto simp add: set_requirements_def)

lemma add_keeps_unique_pairs:
  "unique_pairs s \<Longrightarrow> unique_pairs (snd (addCommitteeSlots committeeId senateDivision n s))"
  by (auto simp add: addCommitteeSlots_unfold Let_def unique_pairs_def slot_requirements_of_def
      filter_empty_conv in_slot_def)

lemma update_keeps_unique_pairs:
  "unique_pairs s \<Longrightarrow> unique_pairs (snd (updateCommitteeSlots committeeId senateDivision n s))"
  by (simp add: updateCommitteeSlots_unfold Let_def unique_pairs_def key_set_requirements
      del: map_map)

lemma delete_keeps_unique_pairs:
  "unique_pairs s \<Longrightarrow> unique_pairs (snd (deleteSlotRequirement committeeId senateDivision s))"
  by (simp add: deleteSlotRequirement_unfold unique_pairs_def distinct_map_filter)

subsection \<open>Updating when the pre-read rejects\<close>




lemma update_missing_total:
  assumes "length (slot_requirements_of s committeeId senateDivision) \<noteq> 1"
      and "\<not> total_slots_not_null s"
  shows "total_slots_of (snd (updateCommitteeSlots committeeId senateDivision n s)) committeeId
           = map (\<lambda>_. None) (total_slots_of s committeeId)"
  using assms(2)
  by (auto simp add: updateCommitteeSlots_unfold difference_param_missing [OF assms(1)] Let_def
      total_slots_of_def filter_committee_add_total add_total_def)

lemma update_pre_read_overflow_at_scenario:
  "slot_requirements_of scenario 1 ''BQ'' = [20]
   \<and> fst (one (select_difference 1 (- 2147483648) ''BQ'') scenario)
       = Inl (PgError numeric_value_out_of_range)
   \<and> fst (updateCommitteeSlots 1 ''BQ'' (- 2147483648) scenario)
       = Inr (Batch [Result \<lparr>rows = [], rowCount = 1\<rparr>, Result \<lparr>rows = [], rowCount = 1\<rparr>])
   \<and> slot_requirements_of (snd (updateCommitteeSlots 1 ''BQ'' (- 2147483648) scenario)) 1 ''BQ''
       = [- 2147483648]
   \<and> total_slots_of (snd (updateCommitteeSlots 1 ''BQ'' (- 2147483648) scenario)) 1 = [None]"
  by (simp add: updateCommitteeSlots_unfold difference_param_eq one_def select_difference_def
      sql_minus_def Let_def slot_requirements_of_def total_slots_of_def add_total_def
      set_requirements_def scenario_def in_slot_def pg_integer_def)

subsection \<open>The totals against the sums\<close>

lemma totals_consistent_shift:
  assumes "totals_consistent s"
      and "\<And>k. slot_sum s' k = slot_sum s k + (if k = cid then d else 0)"
      and "committee s' = map (add_total cid (Some d)) (committee s)"
      and "filter (\<lambda>r. isl (sql_plus (total_slots r) (Some d)))
             (filter (\<lambda>r. committee_id r = cid) (committee s)) = []"
  shows "totals_consistent s'"
proof -
  have "total_slots (add_total cid (Some d) r)
          = Some (slot_sum s (committee_id r) + (if committee_id r = cid then d else 0))"
    if r: "r \<in> set (committee s)" for r
  proof -
    from assms(1) r have t: "total_slots r = Some (slot_sum s (committee_id r))"
      by (simp add: totals_consistent_def list_all_iff)
    show ?thesis
    proof (cases "committee_id r = cid")
      case True
      with assms(4) r have "\<not> isl (sql_plus (total_slots r) (Some d))"
        by (auto simp add: filter_empty_conv)
      with t have "pg_integer (slot_sum s (committee_id r) + d)"
        by (simp split: if_splits)
      with t True show ?thesis
        by (simp add: add_total_def)
    next
      case False
      with t show ?thesis
        by (simp add: add_total_def)
    qed
  qed
  then show ?thesis
    by (simp add: totals_consistent_def list_all_iff assms(2,3))
qed

lemma add_preserves_totals:
  assumes "totals_consistent s"
  shows "totals_consistent (snd (addCommitteeSlots committeeId senateDivision n s))"
proof (cases "isl (fst (addCommitteeSlots committeeId senateDivision n s))")
  case True
  with add_all_or_nothing [of committeeId senateDivision n s] assms show ?thesis
    by auto
next
  case False
  let ?s' = "snd (addCommitteeSlots committeeId senateDivision n s)"
  have "\<And>k. slot_sum ?s' k = slot_sum s k + (if k = committeeId then n else 0)"
    by (simp add: slot_sum_def add_resolved(1) [OF False])
  from totals_consistent_shift [OF assms this add_resolved(2,3) [OF False]] show ?thesis .
qed

lemma update_preserves_totals:
  assumes "totals_consistent s"
      and "slot_requirements_of s committeeId senateDivision = [c]"
      and "pg_integer (n - c)"
  shows "totals_consistent (snd (updateCommitteeSlots committeeId senateDivision n s))"
proof (cases "isl (fst (updateCommitteeSlots committeeId senateDivision n s))")
  case True
  with updateCommitteeSlots_all_or_nothing [of committeeId senateDivision n s] assms(1)
  show ?thesis
    by auto
next
  case False
  let ?s' = "snd (updateCommitteeSlots committeeId senateDivision n s)"
  note d = difference_param_single [OF assms(2,3)]
  from single_slot [OF assms(2)] obtain r
    where "filter (in_slot committeeId senateDivision) (committee_slots s) = [r]"
      and "slot_requirements r = c"
    by blast
  then have "sum_list (map (\<lambda>r. n - slot_requirements r)
            (filter (in_slot committeeId senateDivision) (committee_slots s))) = n - c"
    by simp
  then have "\<And>k. slot_sum ?s' k = slot_sum s k + (if k = committeeId then n - c else 0)"
    by (simp add: slot_sum_def update_resolved(1) [OF False] sum_after_set)
  from totals_consistent_shift [OF assms(1) this]
       update_resolved(2,3) [OF False, unfolded d]
  show ?thesis .
qed

lemma delete_slot_sum:
  "slot_sum (snd (deleteSlotRequirement committeeId senateDivision s)) k
     = slot_sum s k
       - (if k = committeeId then sum_list (slot_requirements_of s committeeId senateDivision) else 0)"
  by (simp add: deleteSlotRequirement_unfold slot_sum_def slot_requirements_of_def sum_after_delete
      del: filter_filter)

lemma delete_committee:
  "committee (snd (deleteSlotRequirement committeeId senateDivision s)) = committee s"
  by (simp add: deleteSlotRequirement_unfold)

lemma delete_preserves_totals_iff:
  assumes "totals_consistent s"
      and "committeeId \<in> set (map committee_id (committee s))"
  shows "totals_consistent (snd (deleteSlotRequirement committeeId senateDivision s))
           \<longleftrightarrow> sum_list (slot_requirements_of s committeeId senateDivision) = 0"
proof
  assume "sum_list (slot_requirements_of s committeeId senateDivision) = 0"
  with assms(1) show "totals_consistent (snd (deleteSlotRequirement committeeId senateDivision s))"
    by (auto simp add: totals_consistent_def list_all_iff delete_committee delete_slot_sum)
next
  assume after: "totals_consistent (snd (deleteSlotRequirement committeeId senateDivision s))"
  from assms(2) obtain r where r: "r \<in> set (committee s)" "committee_id r = committeeId"
    by auto
  from assms(1) r have "total_slots r = Some (slot_sum s committeeId)"
    by (auto simp add: totals_consistent_def list_all_iff)
  moreover from after r
  have "total_slots r = Some (slot_sum (snd (deleteSlotRequirement committeeId senateDivision s)) committeeId)"
    by (auto simp add: totals_consistent_def list_all_iff delete_committee)
  ultimately show "sum_list (slot_requirements_of s committeeId senateDivision) = 0"
    by (simp add: delete_slot_sum)
qed

section \<open>The claims\<close>

text \<open>
  C1, as the sources have it. From a store in which every committee's total equals the
  sum of its slot requirements, \<^verbatim>\<open>addCommitteeSlots\<close> always leads to such a store, and
  so does \<^verbatim>\<open>updateCommitteeSlots\<close> on an existing slot row whose difference \<open>n - c\<close> is
  within the \<^verbatim>\<open>integer\<close> type (a total that would leave the type is refused and
  nothing changes; a difference that leaves the type makes the pre-read reject, and
  the caught error then sets the total to \<^verbatim>\<open>NULL\<close>:
  \<open>update_pre_read_overflow_at_scenario\<close>). \<^verbatim>\<open>deleteSlotRequirement\<close> never touches
  the total: for a committee that exists it keeps the equality exactly when the
  requirements it removes sum to zero.
\<close>

theorem slot_accounting_totals:
  assumes "totals_consistent s"
  shows "totals_consistent (snd (addCommitteeSlots committeeId senateDivision n s))
       \<and> (slot_requirements_of s committeeId senateDivision = [c] \<and> pg_integer (n - c) \<longrightarrow>
            totals_consistent (snd (updateCommitteeSlots committeeId senateDivision n s)))
       \<and> (committeeId \<in> set (map committee_id (committee s)) \<longrightarrow>
            totals_consistent (snd (deleteSlotRequirement committeeId senateDivision s))
              = (sum_list (slot_requirements_of s committeeId senateDivision) = 0))"
  using add_preserves_totals [OF assms] update_preserves_totals [OF assms]
    delete_preserves_totals_iff [OF assms]
  by blast

theorem slot_accounting_totals_witness:
  "totals_consistent scenario_with_AO
   \<and> totals_consistent (snd (addCommitteeSlots 2 ''AO'' 4 scenario_with_AO))
   \<and> slot_requirements_of scenario_with_AO 1 ''AO'' = [5]
   \<and> pg_integer (3 - 5)
   \<and> totals_consistent (snd (updateCommitteeSlots 1 ''AO'' 3 scenario_with_AO))
   \<and> sum_list (slot_requirements_of scenario_with_AO 1 ''AO'') = 5
   \<and> \<not> totals_consistent (snd (deleteSlotRequirement 1 ''AO'' scenario_with_AO))
   \<and> sum_list (slot_requirements_of scenario_with_AO 1 ''ZZ'') = 0
   \<and> totals_consistent (snd (deleteSlotRequirement 1 ''ZZ'' scenario_with_AO))"
proof -
  have h: "totals_consistent scenario_with_AO"
    by (simp add: totals_consistent_def slot_sum_def scenario_with_AO_def scenario_def)
  have r: "slot_requirements_of scenario_with_AO 1 ''AO'' = [5]"
    "slot_requirements_of scenario_with_AO 1 ''ZZ'' = []"
    "1 \<in> set (map committee_id (committee scenario_with_AO))"
    by (simp_all add: slot_requirements_of_def scenario_with_AO_def scenario_def in_slot_def)
  have p: "pg_integer (3 - 5)"
    by (simp add: pg_integer_def)
  from slot_accounting_totals [OF h, of 2 "''AO''" 4]
       slot_accounting_totals [OF h, of 1 "''AO''" 3 5]
       slot_accounting_totals [OF h, of 1 "''ZZ''"]
       h r p
  show ?thesis
    by simp
qed

text \<open>
  C1, as the claim states it, fails for the delete: committee 1 has the total 25 and
  the slots 20 and 5; after the slot \<^verbatim>\<open>(1, AO)\<close> is deleted the total is still 25 and
  the sum is 20.
\<close>

theorem deleteSlotRequirement_breaks_totals:
  "totals_consistent scenario_with_AO
   \<and> total_slots_of (snd (deleteSlotRequirement 1 ''AO'' scenario_with_AO)) 1 = [Some 25]
   \<and> slot_sum (snd (deleteSlotRequirement 1 ''AO'' scenario_with_AO)) 1 = 20
   \<and> \<not> totals_consistent (snd (deleteSlotRequirement 1 ''AO'' scenario_with_AO))"
  by (simp add: totals_consistent_def slot_sum_def total_slots_of_def deleteSlotRequirement_unfold
      scenario_with_AO_def scenario_def in_slot_def)

text \<open>
  C2, as the sources have it. For an existing slot row with the current value \<open>c\<close>,
  whose committee has the total \<open>t\<close>, and a new value \<open>n\<close> with \<open>n\<close> and \<open>n - c\<close> within
  the \<^verbatim>\<open>integer\<close> type: when \<open>t + (n - c)\<close> is within the type, \<^verbatim>\<open>updateCommitteeSlots\<close>
  resolves with the two row counts, leaves the row at \<open>n\<close> and the committee's total at
  \<open>t + (n - c)\<close>; when it is not, the store refuses the second statement (22003), the
  promise rejects and the store is as it was. On every input the two writes go
  together: either the promise rejects and the store is as it was, or it resolves and
  both statements have been applied.
\<close>

theorem updateCommitteeSlots_existing_slot:
  "(slot_requirements_of s committeeId senateDivision = [c]
      \<and> total_slots_of s committeeId = [Some t]
      \<and> pg_integer n \<and> pg_integer (n - c) \<longrightarrow>
    (pg_integer (t + (n - c)) \<longrightarrow>
       fst (updateCommitteeSlots committeeId senateDivision n s)
         = Inr (Batch [Result \<lparr>rows = [], rowCount = 1\<rparr>, Result \<lparr>rows = [], rowCount = 1\<rparr>])
       \<and> slot_requirements_of (snd (updateCommitteeSlots committeeId senateDivision n s))
            committeeId senateDivision = [n]
       \<and> total_slots_of (snd (updateCommitteeSlots committeeId senateDivision n s)) committeeId
            = [Some (t + (n - c))])
    \<and> (\<not> pg_integer (t + (n - c)) \<longrightarrow>
         updateCommitteeSlots committeeId senateDivision n s
           = (Inl (BatchError [Inr (Result \<lparr>rows = [], rowCount = 1\<rparr>),
                               Inl (PgError numeric_value_out_of_range)]), s)))
   \<and> ((isl (fst (updateCommitteeSlots committeeId senateDivision n s))
         \<and> snd (updateCommitteeSlots committeeId senateDivision n s) = s)
      \<or> (\<not> isl (fst (updateCommitteeSlots committeeId senateDivision n s))
         \<and> committee_slots (snd (updateCommitteeSlots committeeId senateDivision n s))
             = map (set_requirements n committeeId senateDivision) (committee_slots s)
         \<and> committee (snd (updateCommitteeSlots committeeId senateDivision n s))
             = map (add_total committeeId (difference_param committeeId senateDivision n s))
                 (committee s)))"
proof (intro conjI impI)
  assume h: "slot_requirements_of s committeeId senateDivision = [c]
      \<and> total_slots_of s committeeId = [Some t]
      \<and> pg_integer n \<and> pg_integer (n - c)"
  then have h1: "slot_requirements_of s committeeId senateDivision = [c]"
    and h2: "total_slots_of s committeeId = [Some t]"
    and h3: "pg_integer (n - c)"
    by simp_all
  {
    assume h4: "pg_integer (t + (n - c))"
    show "fst (updateCommitteeSlots committeeId senateDivision n s)
        = Inr (Batch [Result \<lparr>rows = [], rowCount = 1\<rparr>, Result \<lparr>rows = [], rowCount = 1\<rparr>])"
      by (simp add: update_existing [OF h1 h2 h3 h4])
    show "slot_requirements_of (snd (updateCommitteeSlots committeeId senateDivision n s))
           committeeId senateDivision = [n]"
      by (rule update_existing_slot [OF h1 h2 h3 h4])
    show "total_slots_of (snd (updateCommitteeSlots committeeId senateDivision n s)) committeeId
           = [Some (t + (n - c))]"
      by (rule update_existing_total [OF h1 h2 h3 h4])
  }
  {
    assume h4: "\<not> pg_integer (t + (n - c))"
    show "updateCommitteeSlots committeeId senateDivision n s
           = (Inl (BatchError [Inr (Result \<lparr>rows = [], rowCount = 1\<rparr>),
                               Inl (PgError numeric_value_out_of_range)]), s)"
      by (rule update_existing_overflow [OF h1 h2 h3 h4])
  }
next
  show "(isl (fst (updateCommitteeSlots committeeId senateDivision n s))
         \<and> snd (updateCommitteeSlots committeeId senateDivision n s) = s)
      \<or> (\<not> isl (fst (updateCommitteeSlots committeeId senateDivision n s))
         \<and> committee_slots (snd (updateCommitteeSlots committeeId senateDivision n s))
             = map (set_requirements n committeeId senateDivision) (committee_slots s)
         \<and> committee (snd (updateCommitteeSlots committeeId senateDivision n s))
             = map (add_total committeeId (difference_param committeeId senateDivision n s))
                 (committee s))"
    by (rule updateCommitteeSlots_all_or_nothing)
qed

theorem updateCommitteeSlots_existing_slot_witness:
  "slot_requirements_of scenario_with_AO 1 ''AO'' = [5]
   \<and> total_slots_of scenario_with_AO 1 = [Some 25]
   \<and> pg_integer 3 \<and> pg_integer (3 - 5) \<and> pg_integer (25 + (3 - 5))
   \<and> fst (updateCommitteeSlots 1 ''AO'' 3 scenario_with_AO)
       = Inr (Batch [Result \<lparr>rows = [], rowCount = 1\<rparr>, Result \<lparr>rows = [], rowCount = 1\<rparr>])
   \<and> slot_requirements_of (snd (updateCommitteeSlots 1 ''AO'' 3 scenario_with_AO)) 1 ''AO'' = [3]
   \<and> total_slots_of (snd (updateCommitteeSlots 1 ''AO'' 3 scenario_with_AO)) 1 = [Some 23]
   \<and> slot_requirements_of scenario_at_limit 1 ''BQ'' = [0]
   \<and> total_slots_of scenario_at_limit 1 = [Some 2147483647]
   \<and> pg_integer 5 \<and> pg_integer (5 - 0) \<and> \<not> pg_integer (2147483647 + (5 - 0))
   \<and> updateCommitteeSlots 1 ''BQ'' 5 scenario_at_limit
       = (Inl (BatchError [Inr (Result \<lparr>rows = [], rowCount = 1\<rparr>),
                           Inl (PgError numeric_value_out_of_range)]), scenario_at_limit)"
proof -
  have h: "slot_requirements_of scenario_with_AO 1 ''AO'' = [5]
           \<and> total_slots_of scenario_with_AO 1 = [Some 25]
           \<and> pg_integer 3 \<and> pg_integer (3 - 5)"
    "pg_integer (25 + (3 - 5))"
    by (simp_all add: slot_requirements_of_def total_slots_of_def scenario_with_AO_def
        scenario_def in_slot_def pg_integer_def)
  have g: "slot_requirements_of scenario_at_limit 1 ''BQ'' = [0]
           \<and> total_slots_of scenario_at_limit 1 = [Some 2147483647]
           \<and> pg_integer 5 \<and> pg_integer (5 - 0)"
    "\<not> pg_integer (2147483647 + (5 - 0))"
    by (simp_all add: slot_requirements_of_def total_slots_of_def scenario_at_limit_def
        scenario_def in_slot_def pg_integer_def)
  from h updateCommitteeSlots_existing_slot
         [where s = scenario_with_AO and committeeId = 1 and senateDivision = "''AO''"
            and c = 5 and t = 25 and n = 3]
  have a: "fst (updateCommitteeSlots 1 ''AO'' 3 scenario_with_AO)
       = Inr (Batch [Result \<lparr>rows = [], rowCount = 1\<rparr>, Result \<lparr>rows = [], rowCount = 1\<rparr>])
   \<and> slot_requirements_of (snd (updateCommitteeSlots 1 ''AO'' 3 scenario_with_AO)) 1 ''AO'' = [3]
   \<and> total_slots_of (snd (updateCommitteeSlots 1 ''AO'' 3 scenario_with_AO)) 1 = [Some 23]"
    by simp
  from g updateCommitteeSlots_existing_slot
         [where s = scenario_at_limit and committeeId = 1 and senateDivision = "''BQ''"
            and c = 0 and t = 2147483647 and n = 5]
  have b: "updateCommitteeSlots 1 ''BQ'' 5 scenario_at_limit
       = (Inl (BatchError [Inr (Result \<lparr>rows = [], rowCount = 1\<rparr>),
                           Inl (PgError numeric_value_out_of_range)]), scenario_at_limit)"
    by blast
  from h g a b show ?thesis
    by blast
qed

text \<open>
  C2, as the claim states it, fails where the new total leaves the \<^verbatim>\<open>integer\<close> type.
  Committee 1 has the total 2147483647 and its slot row for \<^verbatim>\<open>BQ\<close> holds 0. Updating
  the row to 1 reads the difference 1, rewrites the row, and the store refuses
  \<^verbatim>\<open>total_slots + 1\<close> with 22003: the promise rejects, the transaction is rolled back,
  the row still holds 0 and the total has not changed by 1.
\<close>

theorem updateCommitteeSlots_total_out_of_range:
  "slot_requirements_of scenario_at_limit 1 ''BQ'' = [0]
   \<and> total_slots_of scenario_at_limit 1 = [Some 2147483647]
   \<and> updateCommitteeSlots 1 ''BQ'' 1 scenario_at_limit
       = (Inl (BatchError [Inr (Result \<lparr>rows = [], rowCount = 1\<rparr>),
                           Inl (PgError numeric_value_out_of_range)]), scenario_at_limit)
   \<and> slot_requirements_of (snd (updateCommitteeSlots 1 ''BQ'' 1 scenario_at_limit)) 1 ''BQ'' \<noteq> [1]
   \<and> total_slots_of (snd (updateCommitteeSlots 1 ''BQ'' 1 scenario_at_limit)) 1
       \<noteq> [Some (2147483647 + (1 - 0))]"
  by (simp add: updateCommitteeSlots_unfold difference_param_eq Let_def slot_requirements_of_def
      total_slots_of_def scenario_at_limit_def scenario_def in_slot_def pg_integer_def)

text \<open>
  C3, at an input where the code departs from it. Committee 1 exists with the total 20
  and has no slot row for \<^verbatim>\<open>AO\<close>. The pre-read of \<^verbatim>\<open>updateCommitteeSlots 1 AO 3\<close>
  rejects, the caught error has no \<^verbatim>\<open>difference\<close>, and the transaction runs with
  \<^verbatim>\<open>total_slots + null\<close>: where the column takes \<^verbatim>\<open>NULL\<close> the promise resolves and the
  committee's total is \<^verbatim>\<open>NULL\<close>; where it is \<^verbatim>\<open>NOT NULL\<close> the promise rejects with that
  violation, not as a missing row. (For every store whose total may be \<^verbatim>\<open>NULL\<close>:
  \<open>update_missing_total\<close>.)
\<close>

theorem updateCommitteeSlots_missing_slot_at_scenario:
  "slot_requirements_of scenario 1 ''AO'' = []
   \<and> total_slots_of scenario 1 = [Some 20]
   \<and> fst (updateCommitteeSlots 1 ''AO'' 3 scenario)
       = Inr (Batch [Result \<lparr>rows = [], rowCount = 0\<rparr>, Result \<lparr>rows = [], rowCount = 1\<rparr>])
   \<and> total_slots_of (snd (updateCommitteeSlots 1 ''AO'' 3 scenario)) 1 = [None]
   \<and> updateCommitteeSlots 1 ''AO'' 3 (scenario\<lparr>total_slots_not_null := True\<rparr>)
       = (Inl (BatchError [Inr (Result \<lparr>rows = [], rowCount = 0\<rparr>),
                           Inl (PgError not_null_violation)]),
          scenario\<lparr>total_slots_not_null := True\<rparr>)"
  by (simp add: updateCommitteeSlots_unfold difference_param_eq Let_def slot_requirements_of_def
      total_slots_of_def add_total_def scenario_def in_slot_def)

text \<open>
  C4, as the sources have it. When the committee exists with the total \<open>t\<close>, the
  division exists, the pair has no slot row and \<open>n\<close> is within the \<^verbatim>\<open>integer\<close> type:
  when \<open>t + n\<close> is within the type, \<^verbatim>\<open>addCommitteeSlots\<close> resolves with the batch of the
  inserted row's \<^verbatim>\<open>committeeId\<close> and the row count of the total's update, and afterwards
  the pair's row holds \<open>n\<close> and the committee's total is \<open>t + n\<close>; when it is not, the
  store refuses the total's update (22003), the promise rejects and the insert is
  rolled back.
\<close>

theorem addCommitteeSlots_creates_slot:
  assumes "total_slots_of s committeeId = [Some t]"
      and "senateDivision \<in> set (map sd_short_name (senate_division s))"
      and "slot_requirements_of s committeeId senateDivision = []"
      and "pg_integer n"
  shows "(pg_integer (t + n) \<longrightarrow>
            fst (addCommitteeSlots committeeId senateDivision n s)
              = Inr (Batch [Row [(''committeeId'', Some committeeId)],
                            Result \<lparr>rows = [], rowCount = 1\<rparr>])
            \<and> slot_requirements_of (snd (addCommitteeSlots committeeId senateDivision n s))
                 committeeId senateDivision = [n]
            \<and> total_slots_of (snd (addCommitteeSlots committeeId senateDivision n s)) committeeId
                 = [Some (t + n)])
       \<and> (\<not> pg_integer (t + n) \<longrightarrow>
            addCommitteeSlots committeeId senateDivision n s
              = (Inl (BatchError [Inr (Row [(''committeeId'', Some committeeId)]),
                                  Inl (PgError numeric_value_out_of_range)]), s))"
proof (intro conjI impI)
  assume h: "pg_integer (t + n)"
  show "fst (addCommitteeSlots committeeId senateDivision n s)
              = Inr (Batch [Row [(''committeeId'', Some committeeId)],
                            Result \<lparr>rows = [], rowCount = 1\<rparr>])"
    by (simp add: add_fresh [OF assms(1,2,3) h])
  show "slot_requirements_of (snd (addCommitteeSlots committeeId senateDivision n s))
                 committeeId senateDivision = [n]"
    by (rule add_fresh_slot [OF assms(1,2,3) h])
  show "total_slots_of (snd (addCommitteeSlots committeeId senateDivision n s)) committeeId
                 = [Some (t + n)]"
    by (rule add_fresh_total [OF assms(1,2,3) h])
next
  assume h: "\<not> pg_integer (t + n)"
  show "addCommitteeSlots committeeId senateDivision n s
              = (Inl (BatchError [Inr (Row [(''committeeId'', Some committeeId)]),
                                  Inl (PgError numeric_value_out_of_range)]), s)"
    by (rule add_fresh_overflow [OF assms(1,2,3) h])
qed

theorem addCommitteeSlots_creates_slot_witness:
  "total_slots_of scenario 1 = [Some 20]
   \<and> ''AO'' \<in> set (map sd_short_name (senate_division scenario))
   \<and> slot_requirements_of scenario 1 ''AO'' = []
   \<and> pg_integer 5 \<and> pg_integer (20 + 5)
   \<and> fst (addCommitteeSlots 1 ''AO'' 5 scenario)
       = Inr (Batch [Row [(''committeeId'', Some 1)], Result \<lparr>rows = [], rowCount = 1\<rparr>])
   \<and> slot_requirements_of (snd (addCommitteeSlots 1 ''AO'' 5 scenario)) 1 ''AO'' = [5]
   \<and> total_slots_of (snd (addCommitteeSlots 1 ''AO'' 5 scenario)) 1 = [Some 25]
   \<and> pg_integer 2147483640 \<and> \<not> pg_integer (20 + 2147483640)
   \<and> addCommitteeSlots 1 ''AO'' 2147483640 scenario
       = (Inl (BatchError [Inr (Row [(''committeeId'', Some 1)]),
                           Inl (PgError numeric_value_out_of_range)]), scenario)"
proof -
  have h1: "total_slots_of scenario 1 = [Some 20]"
    by (simp add: total_slots_of_def scenario_def)
  have h2: "''AO'' \<in> set (map sd_short_name (senate_division scenario))"
    by (simp add: scenario_def)
  have h3: "slot_requirements_of scenario 1 ''AO'' = []"
    by (simp add: slot_requirements_of_def scenario_def in_slot_def)
  have p: "pg_integer 5" "pg_integer (20 + 5)"
    "pg_integer 2147483640" "\<not> pg_integer (20 + 2147483640)"
    by (simp_all add: pg_integer_def)
  from addCommitteeSlots_creates_slot [OF h1 h2 h3 p(1)] p(2)
  have a: "fst (addCommitteeSlots 1 ''AO'' 5 scenario)
       = Inr (Batch [Row [(''committeeId'', Some 1)], Result \<lparr>rows = [], rowCount = 1\<rparr>])
   \<and> slot_requirements_of (snd (addCommitteeSlots 1 ''AO'' 5 scenario)) 1 ''AO'' = [5]
   \<and> total_slots_of (snd (addCommitteeSlots 1 ''AO'' 5 scenario)) 1 = [Some 25]"
    by simp
  from addCommitteeSlots_creates_slot [OF h1 h2 h3 p(3)] p(4)
  have b: "addCommitteeSlots 1 ''AO'' 2147483640 scenario
       = (Inl (BatchError [Inr (Row [(''committeeId'', Some 1)]),
                           Inl (PgError numeric_value_out_of_range)]), scenario)"
    by blast
  from h1 h2 h3 p a b show ?thesis
    by blast
qed

text \<open>
  C4, as the claim states it, fails where the new total leaves the \<^verbatim>\<open>integer\<close> type.
  Committee 1 has the total 20, the division \<^verbatim>\<open>AO\<close> exists and the pair has no row.
  Creating the slot with 2147483647 inserts the row, and the store refuses
  \<^verbatim>\<open>total_slots + 2147483647\<close> with 22003: the promise rejects, the insert is rolled
  back, no row holds 2147483647 and the total is still 20.
\<close>

theorem addCommitteeSlots_total_out_of_range:
  "total_slots_of scenario 1 = [Some 20]
   \<and> ''AO'' \<in> set (map sd_short_name (senate_division scenario))
   \<and> slot_requirements_of scenario 1 ''AO'' = []
   \<and> addCommitteeSlots 1 ''AO'' 2147483647 scenario
       = (Inl (BatchError [Inr (Row [(''committeeId'', Some 1)]),
                           Inl (PgError numeric_value_out_of_range)]), scenario)
   \<and> slot_requirements_of (snd (addCommitteeSlots 1 ''AO'' 2147483647 scenario)) 1 ''AO'' = []
   \<and> total_slots_of (snd (addCommitteeSlots 1 ''AO'' 2147483647 scenario)) 1 = [Some 20]"
  by (simp add: addCommitteeSlots_unfold Let_def slot_requirements_of_def total_slots_of_def
      scenario_def in_slot_def pg_integer_def)



text \<open>
  C6. In a store that keeps the pair unique, \<^verbatim>\<open>deleteSlotRequirement\<close> always resolves
  with a result whose \<^verbatim>\<open>rowCount\<close> is the number of rows it has deleted: the slot table
  afterwards is the table before without the rows of the pair, it is shorter by exactly
  \<^verbatim>\<open>rowCount\<close> rows, and \<^verbatim>\<open>rowCount\<close> is 0 or 1. A pair without a row gives the row
  count 0, no rejection and an unchanged store. (The three slot operations keep the
  pair unique: \<open>add_keeps_unique_pairs\<close>, \<open>update_keeps_unique_pairs\<close>,
  \<open>delete_keeps_unique_pairs\<close>.)
\<close>

theorem deleteSlotRequirement_row_count:
  assumes "unique_pairs s"
  shows "fst (deleteSlotRequirement committeeId senateDivision s)
           = Inr (Single (Result \<lparr>rows = [],
                   rowCount = length (committee_slots s)
                     - length (committee_slots
                         (snd (deleteSlotRequirement committeeId senateDivision s)))\<rparr>))
       \<and> committee_slots (snd (deleteSlotRequirement committeeId senateDivision s))
           = filter (\<lambda>r. \<not> in_slot committeeId senateDivision r) (committee_slots s)
       \<and> length (committee_slots (snd (deleteSlotRequirement committeeId senateDivision s)))
           + length (slot_requirements_of s committeeId senateDivision)
           = length (committee_slots s)
       \<and> fst (deleteSlotRequirement committeeId senateDivision s)
           = Inr (Single (Result \<lparr>rows = [],
                   rowCount = length (slot_requirements_of s committeeId senateDivision)\<rparr>))
       \<and> length (slot_requirements_of s committeeId senateDivision) \<le> 1
       \<and> (slot_requirements_of s committeeId senateDivision = [] \<longrightarrow>
            deleteSlotRequirement committeeId senateDivision s
              = (Inr (Single (Result \<lparr>rows = [], rowCount = 0\<rparr>)), s))"
proof -
  from assms
  have "distinct (map (\<lambda>r. (cs_committee_id r, senate_division_short_name r)) (committee_slots s))"
    by (simp add: unique_pairs_def)
  then have "length (filter (in_slot committeeId senateDivision) (committee_slots s)) \<le> 1"
    by (rule unique_pairs_count)
  then have le: "length (slot_requirements_of s committeeId senateDivision) \<le> 1"
    by (simp add: slot_requirements_of_def)
  have split: "length (filter (\<lambda>r. \<not> in_slot committeeId senateDivision r) (committee_slots s))
                 + length (slot_requirements_of s committeeId senateDivision)
               = length (committee_slots s)"
    using length_filter_split [of "in_slot committeeId senateDivision" "committee_slots s"]
    by (simp add: slot_requirements_of_def)
  have kept: "filter (\<lambda>r. \<not> in_slot committeeId senateDivision r) (committee_slots s)
                = committee_slots s"
    if "slot_requirements_of s committeeId senateDivision = []"
    using that by (simp add: slot_requirements_of_def filter_empty_conv)
  from le split kept show ?thesis
    by (auto simp add: deleteSlotRequirement_unfold)
qed

theorem deleteSlotRequirement_row_count_witness:
  "unique_pairs scenario_with_AO
   \<and> fst (deleteSlotRequirement 1 ''AO'' scenario_with_AO)
       = Inr (Single (Result \<lparr>rows = [], rowCount = 1\<rparr>))
   \<and> length (committee_slots scenario_with_AO) = 2
   \<and> length (committee_slots (snd (deleteSlotRequirement 1 ''AO'' scenario_with_AO))) = 1
   \<and> slot_requirements_of (snd (deleteSlotRequirement 1 ''AO'' scenario_with_AO)) 1 ''AO'' = []
   \<and> slot_requirements_of scenario_with_AO 999 ''ZZ'' = []
   \<and> deleteSlotRequirement 999 ''ZZ'' scenario_with_AO
       = (Inr (Single (Result \<lparr>rows = [], rowCount = 0\<rparr>)), scenario_with_AO)"
proof -
  have h: "unique_pairs scenario_with_AO"
    by (simp add: unique_pairs_def scenario_with_AO_def scenario_def)
  have r: "slot_requirements_of scenario_with_AO 1 ''AO'' = [5]"
    "slot_requirements_of scenario_with_AO 999 ''ZZ'' = []"
    "length (committee_slots scenario_with_AO) = 2"
    by (simp_all add: slot_requirements_of_def scenario_with_AO_def scenario_def in_slot_def)
  note a = deleteSlotRequirement_row_count [OF h, of 1 "''AO''"]
  note b = deleteSlotRequirement_row_count [OF h, of 999 "''ZZ''"]
  from a have "fst (deleteSlotRequirement 1 ''AO'' scenario_with_AO)
       = Inr (Single (Result \<lparr>rows = [],
               rowCount = length (slot_requirements_of scenario_with_AO 1 ''AO'')\<rparr>))"
    by blast
  with r(1) have a1: "fst (deleteSlotRequirement 1 ''AO'' scenario_with_AO)
       = Inr (Single (Result \<lparr>rows = [], rowCount = 1\<rparr>))"
    by simp
  from a have "length (committee_slots (snd (deleteSlotRequirement 1 ''AO'' scenario_with_AO)))
           + length (slot_requirements_of scenario_with_AO 1 ''AO'')
           = length (committee_slots scenario_with_AO)"
    by blast
  with r(1,3)
  have a2: "length (committee_slots (snd (deleteSlotRequirement 1 ''AO'' scenario_with_AO))) = 1"
    by simp
  from a have "committee_slots (snd (deleteSlotRequirement 1 ''AO'' scenario_with_AO))
           = filter (\<lambda>r. \<not> in_slot 1 ''AO'' r) (committee_slots scenario_with_AO)"
    by blast
  then have a3: "slot_requirements_of (snd (deleteSlotRequirement 1 ''AO'' scenario_with_AO)) 1 ''AO'' = []"
    by (simp add: slot_requirements_of_def)
  from b r have b1: "deleteSlotRequirement 999 ''ZZ'' scenario_with_AO
       = (Inr (Single (Result \<lparr>rows = [], rowCount = 0\<rparr>)), scenario_with_AO)"
    by blast
  from h r a1 a2 a3 b1 show ?thesis
    by blast
qed

text \<open>
  C7. \<^verbatim>\<open>deleteSlotRequirement\<close> leaves the committee table (so every total) and the
  divisions as they were, removes the rows of the pair and keeps every other slot row.
\<close>

theorem deleteSlotRequirement_frame:
  "committee (snd (deleteSlotRequirement committeeId senateDivision s)) = committee s
   \<and> total_slots_of (snd (deleteSlotRequirement committeeId senateDivision s)) k
       = total_slots_of s k
   \<and> senate_division (snd (deleteSlotRequirement committeeId senateDivision s))
       = senate_division s
   \<and> filter (\<lambda>r. \<not> in_slot committeeId senateDivision r)
        (committee_slots (snd (deleteSlotRequirement committeeId senateDivision s)))
       = filter (\<lambda>r. \<not> in_slot committeeId senateDivision r) (committee_slots s)
   \<and> filter (in_slot committeeId senateDivision)
        (committee_slots (snd (deleteSlotRequirement committeeId senateDivision s))) = []"
  by (simp add: deleteSlotRequirement_unfold total_slots_of_def)

theorem deleteSlotRequirement_frame_witness:
  "total_slots_of scenario_with_AO 1 = [Some 25]
   \<and> total_slots_of (snd (deleteSlotRequirement 1 ''AO'' scenario_with_AO)) 1 = [Some 25]
   \<and> slot_requirements_of (snd (deleteSlotRequirement 1 ''AO'' scenario_with_AO)) 1 ''AO'' = []
   \<and> slot_requirements_of (snd (deleteSlotRequirement 1 ''AO'' scenario_with_AO)) 1 ''BQ'' = [20]"
proof -
  have h: "total_slots_of scenario_with_AO 1 = [Some 25]"
    by (simp add: total_slots_of_def scenario_with_AO_def scenario_def)
  have r: "slot_requirements_of (snd (deleteSlotRequirement 1 ''AO'' scenario_with_AO)) 1 ''AO'' = []
     \<and> slot_requirements_of (snd (deleteSlotRequirement 1 ''AO'' scenario_with_AO)) 1 ''BQ'' = [20]"
    by (simp add: deleteSlotRequirement_unfold slot_requirements_of_def scenario_with_AO_def
        scenario_def in_slot_def)
  from deleteSlotRequirement_frame [of 1 "''AO''" scenario_with_AO 1] h r
  show ?thesis
    by simp
qed

text \<open>
  C8, as the sources have it. Among the exported functions, the statements of exactly
  four name \<^verbatim>\<open>committee.total_slots\<close>: \<^verbatim>\<open>addCommittee\<close> inserts it, \<^verbatim>\<open>updateCommittee\<close>
  overwrites it, and \<^verbatim>\<open>addCommitteeSlots\<close> and \<^verbatim>\<open>updateCommitteeSlots\<close> add to it.
\<close>

theorem total_slots_writers:
  "writes_total_slots f \<longleftrightarrow>
     f \<in> set [AddCommittee, AddCommitteeSlots, UpdateCommittee, UpdateCommitteeSlots]"
  by (cases f) (simp_all add: writes_total_slots_def faculty_info_def division_stats_def)

theorem total_slots_writers_witness:
  "writes_total_slots AddCommitteeSlots \<and> \<not> writes_total_slots DeleteSlotRequirement"
  using total_slots_writers [of AddCommitteeSlots] total_slots_writers [of DeleteSlotRequirement]
  by simp

text \<open>
  C8, as the claim states it, fails: \<^verbatim>\<open>updateCommittee\<close> is neither of the two slot
  operations and sets \<^verbatim>\<open>total_slots\<close> to its \<^verbatim>\<open>slots\<close> argument (here from 20 to 2), and
  \<^verbatim>\<open>addCommittee\<close> inserts the column.
\<close>

theorem updateCommittee_writes_total_slots:
  "writes_total_slots UpdateCommittee
   \<and> writes_total_slots AddCommittee
   \<and> UpdateCommittee \<notin> set [AddCommitteeSlots, UpdateCommitteeSlots]
   \<and> AddCommittee \<notin> set [AddCommitteeSlots, UpdateCommitteeSlots]
   \<and> total_slots_of scenario 1 = [Some 20]
   \<and> fst (updateCommittee 1 ''Committee on Committees'' ''coc'' 2 scenario)
       = Inr (Single (Result \<lparr>rows = [], rowCount = 1\<rparr>))
   \<and> total_slots_of (snd (updateCommittee 1 ''Committee on Committees'' ''coc'' 2 scenario)) 1
       = [Some 2]"
  by (simp add: writes_total_slots_def total_slots_of_def updateCommittee_def tx_def single_def
      result_def update_committee_def committee_name_violation_def scenario_def)

text \<open>
  C9, as the sources have it. For an existing slot row and a new value \<open>n\<close> with \<open>n\<close> and
  \<open>n - c\<close> within the \<^verbatim>\<open>integer\<close> type, the second statement of \<^verbatim>\<open>updateCommitteeSlots\<close>
  adds the signed difference \<open>n - c\<close> to the total with no lower bound at zero: the
  committee's total becomes \<open>t + (n - c)\<close> whenever that sum is within the type,
  whatever its sign, and otherwise stays \<open>t\<close> (the update is refused); no other
  committee's total moves. (In the witness the total goes from 2 to -18.)
\<close>

theorem updateCommitteeSlots_signed_delta:
  assumes "slot_requirements_of s committeeId senateDivision = [c]"
      and "total_slots_of s committeeId = [Some t]"
      and "pg_integer n"
      and "pg_integer (n - c)"
  shows "total_slots_of (snd (updateCommitteeSlots committeeId senateDivision n s)) k
           = (if k = committeeId \<and> pg_integer (t + (n - c))
              then [Some (t + (n - c))]
              else total_slots_of s k)"
proof (cases "k = committeeId")
  case True
  show ?thesis
  proof (cases "pg_integer (t + (n - c))")
    case True
    with \<open>k = committeeId\<close> show ?thesis
      by (simp add: update_existing_total [OF assms(1,2,4)])
  next
    case False
    then show ?thesis
      by (simp add: update_existing_overflow [OF assms(1,2,4)])
  qed
next
  case False
  then show ?thesis
    by (simp add: update_existing_other_total [OF assms(1,2,4)])
qed

theorem updateCommitteeSlots_signed_delta_witness:
  "slot_requirements_of scenario_lowered 1 ''BQ'' = [20]
   \<and> total_slots_of scenario_lowered 1 = [Some 2]
   \<and> pg_integer 0 \<and> pg_integer (0 - 20) \<and> pg_integer (2 + (0 - 20))
   \<and> total_slots_of (snd (updateCommitteeSlots 1 ''BQ'' 0 scenario_lowered)) 1 = [Some (- 18)]"
proof -
  have h1: "slot_requirements_of scenario_lowered 1 ''BQ'' = [20]"
    by (simp add: slot_requirements_of_def scenario_lowered_eq scenario_def in_slot_def)
  have h2: "total_slots_of scenario_lowered 1 = [Some 2]"
    by (simp add: total_slots_of_def scenario_lowered_eq scenario_def)
  have p: "pg_integer 0" "pg_integer (0 - 20)" "pg_integer (2 + (0 - 20))"
    by (simp_all add: pg_integer_def)
  from updateCommitteeSlots_signed_delta [OF h1 h2 p(1,2), of 1] h1 h2 p
  show ?thesis
    by simp
qed

text \<open>
  C9, as the claim states it, fails where the sum leaves the \<^verbatim>\<open>integer\<close> type.
  Committee 1 has the total 2147483647 and its slot row for \<^verbatim>\<open>BQ\<close> holds 0. Updating
  the row to 2 does not leave the total at 2147483647 + (2 - 0): the store refuses the
  sum with 22003 and the total is still 2147483647.
\<close>

theorem updateCommitteeSlots_sum_not_exact_at_limit:
  "slot_requirements_of scenario_at_limit 1 ''BQ'' = [0]
   \<and> total_slots_of scenario_at_limit 1 = [Some 2147483647]
   \<and> total_slots_of (snd (updateCommitteeSlots 1 ''BQ'' 2 scenario_at_limit)) 1
       = [Some 2147483647]
   \<and> total_slots_of (snd (updateCommitteeSlots 1 ''BQ'' 2 scenario_at_limit)) 1
       \<noteq> [Some (2147483647 + (2 - 0))]
   \<and> fst (updateCommitteeSlots 1 ''BQ'' 2 scenario_at_limit)
       = Inl (BatchError [Inr (Result \<lparr>rows = [], rowCount = 1\<rparr>),
                          Inl (PgError numeric_value_out_of_range)])"
  by (simp add: updateCommitteeSlots_unfold difference_param_eq Let_def slot_requirements_of_def
      total_slots_of_def scenario_at_limit_def scenario_def in_slot_def pg_integer_def)



end
